theory Spec2Isabelle
  imports Main "HOL-Library.Sublist"
begin

section \<open>The RGB character LCD shield driver (character\_lcd\_rgb\_i2c.py)\<close>

text \<open>
  The module defines one class, \<open>Character_LCD_RGB_I2C\<close>, with a constructor and five
  read-only properties. Everything else it touches is a collaborator that lives outside
  the file: the \<open>MCP23017\<close> expander class, the pin objects \<open>get_pin\<close> returns, and the
  base class \<open>Character_LCD_RGB\<close>. The collaborators are parameters of the model; the
  driver's own code is embedded statement by statement.
\<close>

subsection \<open>Exceptions, call arguments and the log of collaborator calls\<close>

text \<open>
  \<open>NameError\<close> is what the interpreter raises for a global name that is not bound.
  \<open>Raised c\<close> is an exception of class \<open>c\<close> raised inside a collaborator.
\<close>

datatype exn = NameError string | Raised string

text \<open>A positional argument of the base constructor: a pin object or an integer.\<close>

datatype 'p arg = PinArg 'p | IntArg int

text \<open>
  One entry per call the driver makes on a collaborator, with the outcome of the call:
  the import of line 86, the call of the expander class of line 87, \<open>mcp.get_pin(i)\<close>,
  \<open>super().__init__(...)\<close> and a read of \<open>pin.value\<close>.
\<close>

datatype 'p call =
    Import "exn option"
  | Construct "exn option"
  | GetPin int "exn + 'p"
  | SuperInit "'p arg list" "exn option"
  | GetValue 'p "exn + bool"

fun failure :: "exn + 'a \<Rightarrow> exn option" where
  "failure (Inl e) = Some e"
| "failure (Inr x) = None"

text \<open>
  The system state is the world outside the driver (bus, expander registers, display)
  together with the log. A collaborator operation is an \<open>effect\<close> on the world that
  returns a value or raises; a piece of driver code is an \<open>io\<close> computation.
\<close>

type_synonym ('w, 'a) effect = "'w \<Rightarrow> (exn + 'a) \<times> 'w"

type_synonym ('w, 'p) sys = "'w \<times> 'p call list"

type_synonym ('w, 'p, 'a) io = "('w, 'p) sys \<Rightarrow> (exn + 'a) \<times> ('w, 'p) sys"

definition return_io :: "'a \<Rightarrow> ('w, 'p, 'a) io" where
  "return_io x = (\<lambda>s. (Inr x, s))"

definition raise_io :: "exn \<Rightarrow> ('w, 'p, 'a) io" where
  "raise_io e = (\<lambda>s. (Inl e, s))"

text \<open>Sequencing: an exception in the first part skips the rest.\<close>

definition bind_io :: "('w, 'p, 'a) io \<Rightarrow> ('a \<Rightarrow> ('w, 'p, 'b) io) \<Rightarrow> ('w, 'p, 'b) io" where
  "bind_io m f = (\<lambda>s. case m s of (Inl e, s') \<Rightarrow> (Inl e, s') | (Inr x, s') \<Rightarrow> f x s')"

text \<open>Calling a collaborator: run its effect on the world and log the call.\<close>

definition perform :: "(exn + 'a \<Rightarrow> 'p call) \<Rightarrow> ('w, 'a) effect \<Rightarrow> ('w, 'p, 'a) io" where
  "perform ev f = (\<lambda>(w, t). case f w of (r, w') \<Rightarrow> (r, (w', t @ [ev r])))"

subsection \<open>Collaborators\<close>

text \<open>
  What calling an object with the single argument \<open>i2c\<close> does: for the expander class
  it builds the expander object (type \<open>'m\<close>).
\<close>

type_synonym ('w, 'i, 'm) callable = "'i \<Rightarrow> ('w, 'm) effect"

text \<open>
  \<open>import_MCP23017\<close>: line 86, \<open>from adafruit_mcp230xx.mcp23017 import MCP23017\<close>;
  \<open>get_pin\<close>: the expander's \<open>get_pin(index)\<close>, returning a pin object (type \<open>'p\<close>);
  \<open>super_init\<close>: the base class constructor \<open>Character_LCD_RGB.__init__\<close> with its
  positional arguments, returning the attributes it sets up (type \<open>'b\<close>);
  \<open>pin_value\<close>: a read of a pin object's \<open>value\<close>.
\<close>

record ('w, 'i, 'm, 'p, 'b) collaborators =
  import_MCP23017 :: "('w, ('w, 'i, 'm) callable) effect"
  get_pin :: "'m \<Rightarrow> int \<Rightarrow> ('w, 'p) effect"
  super_init :: "'p arg list \<Rightarrow> ('w, 'b) effect"
  pin_value :: "'p \<Rightarrow> ('w, bool) effect"

subsection \<open>Global names\<close>

text \<open>
  A name that the function body never assigns is looked up when the statement runs, in the
  module's global scope and then among the builtins; an unbound name raises
  \<open>NameError\<close>. The map \<open>globals\<close> holds, for each name that lookup finds, what
  calling the object it is bound to with one argument does.
\<close>

definition load_global :: "(string \<rightharpoonup> 'o) \<Rightarrow> string \<Rightarrow> ('w, 'p, 'o) io" where
  "load_global globals name =
     (case globals name of None \<Rightarrow> raise_io (NameError name) | Some obj \<Rightarrow> return_io obj)"

text \<open>
  The names the module's top-level statements bind (lines 22 to 63): the docstring, the two
  imports, \<open>__version__\<close>, \<open>__repo__\<close> and the class. \<open>module_globals obj\<close> is the
  global scope of the module as it is written, whatever objects \<open>obj\<close> the names hold.
  The attributes the interpreter gives every module (\<open>__name__\<close> and the like) and the
  builtins are left out: none of them is called \<open>MCP2317\<close>.
\<close>

definition module_names :: "string list" where
  "module_names =
     [''__doc__'', ''digitalio'', ''Character_LCD_RGB'', ''__version__'', ''__repo__'',
      ''Character_LCD_RGB_I2C'']"

definition module_globals :: "(string \<Rightarrow> 'o) \<Rightarrow> (string \<rightharpoonup> 'o)" where
  "module_globals obj = (\<lambda>name. if name \<in> set module_names then Some (obj name) else None)"

subsection \<open>The driver object and its constructor\<close>

text \<open>
  The attributes \<open>self._left_button\<close> \<dots> \<open>self._buttons\<close> set by lines 89 to 96, and
  \<open>base\<close>, the attributes the base constructor sets.
\<close>

record ('p, 'b) driver =
  self_left_button :: 'p
  self_up_button :: 'p
  self_down_button :: 'p
  self_right_button :: 'p
  self_select_button :: 'p
  self_buttons :: "'p list"
  base :: 'b

definition mcp_get_pin ::
  "('w, 'i, 'm, 'p, 'b) collaborators \<Rightarrow> 'm \<Rightarrow> int \<Rightarrow> ('w, 'p, 'p) io" where
  "mcp_get_pin c mcp i = perform (GetPin i) (get_pin c mcp i)"

text \<open>
  \<open>__init__(self, i2c, columns, lines)\<close>, lines 80 to 109, in the order Python evaluates
  it: the import binds the local name \<open>MCP23017\<close>; line 87 looks up the global name
  \<open>MCP2317\<close> and calls it with \<open>i2c\<close>; lines 89 to 93 fetch the five button pins; line
  95 builds \<open>self._buttons\<close>; lines 98 to 109 evaluate the arguments of
  \<open>super().__init__\<close> from left to right and make the call.
\<close>

definition init ::
  "(string \<rightharpoonup> ('w, 'i, 'm) callable) \<Rightarrow> ('w, 'i, 'm, 'p, 'b) collaborators \<Rightarrow>
   'i \<Rightarrow> int \<Rightarrow> int \<Rightarrow> ('w, 'p, ('p, 'b) driver) io" where
  "init globals c i2c columns lines =
     bind_io (perform (\<lambda>r. Import (failure r)) (import_MCP23017 c)) (\<lambda>MCP23017.
     bind_io (load_global globals ''MCP2317'') (\<lambda>MCP2317.
     bind_io (perform (\<lambda>r. Construct (failure r)) (MCP2317 i2c)) (\<lambda>mcp.
     bind_io (mcp_get_pin c mcp 4) (\<lambda>left.
     bind_io (mcp_get_pin c mcp 3) (\<lambda>up.
     bind_io (mcp_get_pin c mcp 2) (\<lambda>down.
     bind_io (mcp_get_pin c mcp 1) (\<lambda>right.
     bind_io (mcp_get_pin c mcp 0) (\<lambda>select.
     bind_io (mcp_get_pin c mcp 15) (\<lambda>a1.
     bind_io (mcp_get_pin c mcp 13) (\<lambda>a2.
     bind_io (mcp_get_pin c mcp 12) (\<lambda>a3.
     bind_io (mcp_get_pin c mcp 11) (\<lambda>a4.
     bind_io (mcp_get_pin c mcp 10) (\<lambda>a5.
     bind_io (mcp_get_pin c mcp 9) (\<lambda>a6.
     bind_io (mcp_get_pin c mcp 6) (\<lambda>a9.
     bind_io (mcp_get_pin c mcp 7) (\<lambda>a10.
     bind_io (mcp_get_pin c mcp 8) (\<lambda>a11.
     bind_io (mcp_get_pin c mcp 14) (\<lambda>a12.
     bind_io (perform (\<lambda>r. SuperInit
                  [PinArg a1, PinArg a2, PinArg a3, PinArg a4, PinArg a5, PinArg a6,
                   IntArg columns, IntArg lines,
                   PinArg a9, PinArg a10, PinArg a11, PinArg a12] (failure r))
                (super_init c
                  [PinArg a1, PinArg a2, PinArg a3, PinArg a4, PinArg a5, PinArg a6,
                   IntArg columns, IntArg lines,
                   PinArg a9, PinArg a10, PinArg a11, PinArg a12])) (\<lambda>b.
     return_io \<lparr>self_left_button = left, self_up_button = up, self_down_button = down,
                self_right_button = right, self_select_button = select,
                self_buttons = [left, up, down, right, select],
                base = b\<rparr>)))))))))))))))))))"

text \<open>
  Lines 89 to 109 on their own: the statements of \<open>__init__\<close> that follow line 87, run
  on an expander object \<open>mcp\<close>. \<open>init\<close> is the import, the lookup and the call of
  line 87 followed by these statements (lemma \<open>init_body_eq\<close>).
\<close>

definition init_body ::
  "('w, 'i, 'm, 'p, 'b) collaborators \<Rightarrow> 'm \<Rightarrow> int \<Rightarrow> int \<Rightarrow> ('w, 'p, ('p, 'b) driver) io" where
  "init_body c mcp columns lines =
     bind_io (mcp_get_pin c mcp 4) (\<lambda>left.
     bind_io (mcp_get_pin c mcp 3) (\<lambda>up.
     bind_io (mcp_get_pin c mcp 2) (\<lambda>down.
     bind_io (mcp_get_pin c mcp 1) (\<lambda>right.
     bind_io (mcp_get_pin c mcp 0) (\<lambda>select.
     bind_io (mcp_get_pin c mcp 15) (\<lambda>a1.
     bind_io (mcp_get_pin c mcp 13) (\<lambda>a2.
     bind_io (mcp_get_pin c mcp 12) (\<lambda>a3.
     bind_io (mcp_get_pin c mcp 11) (\<lambda>a4.
     bind_io (mcp_get_pin c mcp 10) (\<lambda>a5.
     bind_io (mcp_get_pin c mcp 9) (\<lambda>a6.
     bind_io (mcp_get_pin c mcp 6) (\<lambda>a9.
     bind_io (mcp_get_pin c mcp 7) (\<lambda>a10.
     bind_io (mcp_get_pin c mcp 8) (\<lambda>a11.
     bind_io (mcp_get_pin c mcp 14) (\<lambda>a12.
     bind_io (perform (\<lambda>r. SuperInit
                  [PinArg a1, PinArg a2, PinArg a3, PinArg a4, PinArg a5, PinArg a6,
                   IntArg columns, IntArg lines,
                   PinArg a9, PinArg a10, PinArg a11, PinArg a12] (failure r))
                (super_init c
                  [PinArg a1, PinArg a2, PinArg a3, PinArg a4, PinArg a5, PinArg a6,
                   IntArg columns, IntArg lines,
                   PinArg a9, PinArg a10, PinArg a11, PinArg a12])) (\<lambda>b.
     return_io \<lparr>self_left_button = left, self_up_button = up, self_down_button = down,
                self_right_button = right, self_select_button = select,
                self_buttons = [left, up, down, right, select],
                base = b\<rparr>))))))))))))))))"

subsection \<open>The button properties\<close>

text \<open>
  Each property is \<open>return not self._X_button.value\<close>: one read of the pin's value,
  negated. The result comes with the driver object and the system state after the call.
\<close>

definition read_negated ::
  "('w, 'i, 'm, 'p, 'b) collaborators \<Rightarrow> 'p \<Rightarrow> ('p, 'b) driver \<Rightarrow> ('w, 'p) sys \<Rightarrow>
   (exn + bool) \<times> ('p, 'b) driver \<times> ('w, 'p) sys" where
  "read_negated c pin self s =
     (case perform (GetValue pin) (pin_value c pin) s of
        (Inl e, s') \<Rightarrow> (Inl e, self, s')
      | (Inr v, s') \<Rightarrow> (Inr (\<not> v), self, s'))"

definition left_button ::
  "('w, 'i, 'm, 'p, 'b) collaborators \<Rightarrow> ('p, 'b) driver \<Rightarrow> ('w, 'p) sys \<Rightarrow>
   (exn + bool) \<times> ('p, 'b) driver \<times> ('w, 'p) sys" where
  "left_button c self = read_negated c (self_left_button self) self"

definition up_button ::
  "('w, 'i, 'm, 'p, 'b) collaborators \<Rightarrow> ('p, 'b) driver \<Rightarrow> ('w, 'p) sys \<Rightarrow>
   (exn + bool) \<times> ('p, 'b) driver \<times> ('w, 'p) sys" where
  "up_button c self = read_negated c (self_up_button self) self"

definition down_button ::
  "('w, 'i, 'm, 'p, 'b) collaborators \<Rightarrow> ('p, 'b) driver \<Rightarrow> ('w, 'p) sys \<Rightarrow>
   (exn + bool) \<times> ('p, 'b) driver \<times> ('w, 'p) sys" where
  "down_button c self = read_negated c (self_down_button self) self"

definition right_button ::
  "('w, 'i, 'm, 'p, 'b) collaborators \<Rightarrow> ('p, 'b) driver \<Rightarrow> ('w, 'p) sys \<Rightarrow>
   (exn + bool) \<times> ('p, 'b) driver \<times> ('w, 'p) sys" where
  "right_button c self = read_negated c (self_right_button self) self"

definition select_button ::
  "('w, 'i, 'm, 'p, 'b) collaborators \<Rightarrow> ('p, 'b) driver \<Rightarrow> ('w, 'p) sys \<Rightarrow>
   (exn + bool) \<times> ('p, 'b) driver \<times> ('w, 'p) sys" where
  "select_button c self = read_negated c (self_select_button self) self"

subsection \<open>A client polling the buttons\<close>

text \<open>
  The operations the class defines on an instance are the five properties. A client's use
  of an instance over its lifetime is a sequence of property reads; an exception of one
  read is caught by the client and the next read follows.
\<close>

datatype button = LeftButton | UpButton | DownButton | RightButton | SelectButton

fun read_button ::
  "('w, 'i, 'm, 'p, 'b) collaborators \<Rightarrow> button \<Rightarrow> ('p, 'b) driver \<Rightarrow> ('w, 'p) sys \<Rightarrow>
   (exn + bool) \<times> ('p, 'b) driver \<times> ('w, 'p) sys" where
  "read_button c LeftButton = left_button c"
| "read_button c UpButton = up_button c"
| "read_button c DownButton = down_button c"
| "read_button c RightButton = right_button c"
| "read_button c SelectButton = select_button c"

fun poll ::
  "('w, 'i, 'm, 'p, 'b) collaborators \<Rightarrow> button list \<Rightarrow> ('p, 'b) driver \<Rightarrow> ('w, 'p) sys \<Rightarrow>
   (exn + bool) list \<times> ('p, 'b) driver \<times> ('w, 'p) sys" where
  "poll c [] self s = ([], self, s)"
| "poll c (b # bs) self s =
     (case read_button c b self s of
        (r, self', s') \<Rightarrow>
          (case poll c bs self' s' of (rs, self'', s'') \<Rightarrow> (r # rs, self'', s'')))"

subsection \<open>Reading the log\<close>

text \<open>The pin indices asked of \<open>get_pin\<close>, in call order.\<close>

fun requested :: "'p call list \<Rightarrow> int list" where
  "requested [] = []"
| "requested (GetPin i r # t) = i # requested t"
| "requested (e # t) = requested t"

text \<open>The pin handles acquired: index asked and pin object returned, in call order.\<close>

fun acquired :: "'p call list \<Rightarrow> (int \<times> 'p) list" where
  "acquired [] = []"
| "acquired (GetPin i (Inr p) # t) = (i, p) # acquired t"
| "acquired (e # t) = acquired t"

text \<open>The pin objects among the positional arguments of a call.\<close>

fun pin_args :: "'p arg list \<Rightarrow> 'p list" where
  "pin_args [] = []"
| "pin_args (PinArg p # as) = p # pin_args as"
| "pin_args (IntArg n # as) = pin_args as"

text \<open>The argument lists of the calls of the base constructor.\<close>

fun forwarded :: "'p call list \<Rightarrow> 'p arg list list" where
  "forwarded [] = []"
| "forwarded (SuperInit as x # t) = as # forwarded t"
| "forwarded (e # t) = forwarded t"

text \<open>The outcome logged with a call.\<close>

fun outcome :: "'p call \<Rightarrow> exn option" where
  "outcome (Import x) = x"
| "outcome (Construct x) = x"
| "outcome (GetPin i r) = failure r"
| "outcome (SuperInit as x) = x"
| "outcome (GetValue p r) = failure r"

text \<open>The arguments of \<open>get_pin\<close> as lines 89 to 109 write them, top to bottom.\<close>

definition pin_order :: "int list" where
  "pin_order = [4, 3, 2, 1, 0, 15, 13, 12, 11, 10, 9, 6, 7, 8, 14]"

subsection \<open>A simulated shield\<close>

text \<open>
  Concrete collaborators for running the model: the world is the electrical level of each
  expander pin, a pin object is its index, the expander class and the base constructor
  accept whatever they are given, and reading a pin returns its level.
\<close>

definition shield_class :: "(int \<Rightarrow> bool, unit, unit) callable" where
  "shield_class = (\<lambda>i2c w. (Inr (), w))"

definition shield :: "(int \<Rightarrow> bool, unit, unit, int, unit) collaborators" where
  "shield =
     \<lparr>import_MCP23017 = (\<lambda>w. (Inr shield_class, w)),
      get_pin = (\<lambda>mcp i w. (Inr i, w)),
      super_init = (\<lambda>as w. (Inr (), w)),
      pin_value = (\<lambda>p w. (Inr (w p), w))\<rparr>"

text \<open>The same shield on a bus whose transfers fail.\<close>

definition dead_bus :: "(int \<Rightarrow> bool, unit, unit, int, unit) collaborators" where
  "dead_bus = shield\<lparr>pin_value := (\<lambda>p w. (Inl (Raised ''TransportError''), w))\<rparr>"

text \<open>The same shield under a base constructor that refuses a zero among its arguments.\<close>

definition picky :: "(int \<Rightarrow> bool, unit, unit, int, unit) collaborators" where
  "picky = shield\<lparr>super_init :=
     (\<lambda>as w. (if IntArg 0 \<in> set as then Inl (Raised ''ValueError'') else Inr (), w))\<rparr>"

text \<open>All pins high (no button pressed), and the left button's pin 4 pulled low.\<close>

definition idle :: "int \<Rightarrow> bool" where
  "idle = (\<lambda>p. True)"

definition left_pressed :: "int \<Rightarrow> bool" where
  "left_pressed = (\<lambda>p. p \<noteq> 4)"

text \<open>
  The module's global scope as written, with every name it binds holding a working expander
  class, and the same scope with the name \<open>MCP2317\<close> bound in addition.
\<close>

definition shipped_globals :: "string \<rightharpoonup> (int \<Rightarrow> bool, unit, unit) callable" where
  "shipped_globals = module_globals (\<lambda>name. shield_class)"

definition patched_globals :: "string \<rightharpoonup> (int \<Rightarrow> bool, unit, unit) callable" where
  "patched_globals = shipped_globals(''MCP2317'' \<mapsto> shield_class)"

text \<open>The instance a construction on the simulated shield yields.\<close>

definition shield_driver :: "(int, unit) driver" where
  "shield_driver =
     \<lparr>self_left_button = 4, self_up_button = 3, self_down_button = 2,
      self_right_button = 1, self_select_button = 0,
      self_buttons = [4, 3, 2, 1, 0], base = ()\<rparr>"

text \<open>The log of a complete construction on the simulated shield.\<close>

definition shield_log :: "int \<Rightarrow> int \<Rightarrow> int call list" where
  "shield_log columns lines =
     [Import None, Construct None,
      GetPin 4 (Inr 4), GetPin 3 (Inr 3), GetPin 2 (Inr 2), GetPin 1 (Inr 1), GetPin 0 (Inr 0),
      GetPin 15 (Inr 15), GetPin 13 (Inr 13), GetPin 12 (Inr 12), GetPin 11 (Inr 11),
      GetPin 10 (Inr 10), GetPin 9 (Inr 9), GetPin 6 (Inr 6), GetPin 7 (Inr 7),
      GetPin 8 (Inr 8), GetPin 14 (Inr 14),
      SuperInit [PinArg 15, PinArg 13, PinArg 12, PinArg 11, PinArg 10, PinArg 9,
                 IntArg columns, IntArg lines, PinArg 6, PinArg 7, PinArg 8, PinArg 14] None]"

section \<open>Properties\<close>

subsection \<open>Sequencing and the log\<close>

lemma bind_io_Inr:
  "bind_io m f s = (Inr y, s'') \<longleftrightarrow> (\<exists>x s'. m s = (Inr x, s') \<and> f x s' = (Inr y, s''))"
  by (auto simp: bind_io_def split: prod.splits sum.splits)

lemma perform_Inr:
  "perform ev f (w, t) = (Inr x, (w', t')) \<longleftrightarrow> f w = (Inr x, w') \<and> t' = t @ [ev (Inr x)]"
  by (auto simp: perform_def split: prod.splits)

lemma mcp_get_pin_Inr:
  "mcp_get_pin c mcp i (w, t) = (Inr p, (w', t')) \<longleftrightarrow>
     get_pin c mcp i w = (Inr p, w') \<and> t' = t @ [GetPin i (Inr p)]"
  by (simp add: mcp_get_pin_def perform_Inr)

lemma load_global_Inr:
  "load_global globals name s = (Inr obj, s') \<longleftrightarrow> globals name = Some obj \<and> s' = s"
  by (auto simp: load_global_def raise_io_def return_io_def split: option.splits)

lemma init_success:
  assumes "init globals c i2c columns lines (w, t) = (Inr self, (w', t'))"
  shows "\<exists>p4 p3 p2 p1 p0 p15 p13 p12 p11 p10 p9 p6 p7 p8 p14 b.
     t' = t @ [Import None, Construct None,
        GetPin 4 (Inr p4), GetPin 3 (Inr p3), GetPin 2 (Inr p2), GetPin 1 (Inr p1),
        GetPin 0 (Inr p0),
        GetPin 15 (Inr p15), GetPin 13 (Inr p13), GetPin 12 (Inr p12), GetPin 11 (Inr p11),
        GetPin 10 (Inr p10), GetPin 9 (Inr p9), GetPin 6 (Inr p6), GetPin 7 (Inr p7),
        GetPin 8 (Inr p8), GetPin 14 (Inr p14),
        SuperInit [PinArg p15, PinArg p13, PinArg p12, PinArg p11, PinArg p10, PinArg p9,
                   IntArg columns, IntArg lines, PinArg p6, PinArg p7, PinArg p8, PinArg p14] None]
     \<and> self = \<lparr>self_left_button = p4, self_up_button = p3, self_down_button = p2,
                self_right_button = p1, self_select_button = p0,
                self_buttons = [p4, p3, p2, p1, p0], base = b\<rparr>"
  using assms
  unfolding init_def
  by (auto simp: bind_io_Inr perform_Inr mcp_get_pin_Inr load_global_Inr return_io_def)

lemma read_negated_eq:
  "read_negated c pin self (w, t) =
     (map_sum id Not (fst (pin_value c pin w)), self,
      (snd (pin_value c pin w), t @ [GetValue pin (fst (pin_value c pin w))]))"
  by (auto simp: read_negated_def perform_def split: prod.splits sum.splits)

lemma read_button_self: "read_button c b self s = (r, self', s') \<Longrightarrow> self' = self"
  by (cases b; cases s)
     (auto simp: left_button_def up_button_def down_button_def right_button_def
        select_button_def read_negated_eq)

lemma poll_self: "poll c bs self s = (rs, self', s') \<Longrightarrow> self' = self"
proof (induction bs arbitrary: self s rs self' s')
  case Nil
  then show ?case by simp
next
  case (Cons b bs)
  obtain r self1 s1 where step: "read_button c b self s = (r, self1, s1)"
    by (cases "read_button c b self s") auto
  obtain rs2 self2 s2 where rest: "poll c bs self1 s1 = (rs2, self2, s2)"
    by (cases "poll c bs self1 s1") auto
  from step have "self1 = self" by (rule read_button_self)
  moreover from rest have "self2 = self1" by (rule Cons.IH)
  moreover from Cons.prems step rest have "self' = self2" by simp
  ultimately show ?case by simp
qed

lemma shield_run:
  "init patched_globals shield () columns lines (w, t) = (Inr shield_driver, (w, t @ shield_log columns lines))"
  by (simp add: init_def bind_io_def perform_def mcp_get_pin_def load_global_def return_io_def
        raise_io_def patched_globals_def shield_def shield_class_def shield_driver_def shield_log_def)

lemma shipped_run:
  "init shipped_globals shield () columns lines (w, t) = (Inl (NameError ''MCP2317''), (w, t @ [Import None]))"
  by (simp add: init_def bind_io_def perform_def mcp_get_pin_def load_global_def return_io_def
        raise_io_def shipped_globals_def module_globals_def module_names_def shield_def shield_class_def)

lemma module_globals_unbound: "module_globals obj ''MCP2317'' = None"
  by (simp add: module_globals_def module_names_def)

lemma init_unbound_name:
  assumes "globals ''MCP2317'' = None" and "import_MCP23017 c w = (Inr cls, w')"
  shows "init globals c i2c columns lines (w, t) = (Inl (NameError ''MCP2317''), (w', t @ [Import None]))"
  using assms
  by (simp add: init_def bind_io_def perform_def load_global_def raise_io_def)

text \<open>
  Under the module's own global scope no construction returns an instance, whatever the
  collaborators do and whatever objects the module's names hold.
\<close>

lemma init_module_globals_fails:
  "\<exists>e. fst (init (module_globals obj) c i2c columns lines s) = Inl e"
  by (cases s; cases "import_MCP23017 c (fst s)")
     (auto simp: init_def bind_io_def perform_def load_global_def raise_io_def
        module_globals_unbound split: sum.splits)

text \<open>The constructor is lines 86 and 87 followed by the body.\<close>

lemma init_body_eq:
  "init globals c i2c columns lines =
     bind_io (perform (\<lambda>r. Import (failure r)) (import_MCP23017 c)) (\<lambda>MCP23017.
     bind_io (load_global globals ''MCP2317'') (\<lambda>MCP2317.
     bind_io (perform (\<lambda>r. Construct (failure r)) (MCP2317 i2c)) (\<lambda>mcp.
       init_body c mcp columns lines)))"
  by (simp add: init_def init_body_def)

text \<open>
  Every run of the body: it logs at least one call, asks for pins in the order of
  \<open>pin_order\<close>, ends with the outcome of the call it made last, and goes through all
  sixteen calls when no \<open>get_pin\<close> raises.
\<close>

lemma init_body_any_run:
  assumes "init_body c mcp columns lines (w, t) = (r, (w', t'))"
  shows "\<exists>es. t' = t @ es \<and> es \<noteq> [] \<and> prefix (requested es) pin_order \<and>
           failure r = outcome (last es) \<and>
           (\<forall>as oc. SuperInit as oc \<in> set es \<longrightarrow>
              length as = 12 \<and> as ! 6 = IntArg columns \<and> as ! 7 = IntArg lines) \<and>
           ((\<forall>i e. GetPin i (Inl e) \<notin> set es) \<longrightarrow>
              length es = 16 \<and> map fst (acquired es) = pin_order \<and>
              (\<exists>as oc. last es = SuperInit as oc \<and>
                 pin_args as = map snd (drop 5 (acquired es)))) \<and>
           (\<forall>self. r = Inr self \<longrightarrow>
              map snd (take 5 (acquired es)) = self_buttons self \<and>
              self_buttons self =
                [self_left_button self, self_up_button self, self_down_button self,
                 self_right_button self, self_select_button self])"
  using assms
  unfolding init_body_def
  by (auto simp: bind_io_def perform_def mcp_get_pin_def return_io_def pin_order_def
       split: prod.splits sum.splits)

text \<open>
  With a base constructor that pays no attention to its arguments, the result and the world
  after construction are the same for every \<open>columns\<close> and \<open>lines\<close>.
\<close>

lemma init_body_geometry_free:
  "fst (init_body (c\<lparr>super_init := (\<lambda>as. k)\<rparr>) mcp columns lines s) =
     fst (init_body (c\<lparr>super_init := (\<lambda>as. k)\<rparr>) mcp columns' lines' s) \<and>
   fst (snd (init_body (c\<lparr>super_init := (\<lambda>as. k)\<rparr>) mcp columns lines s)) =
     fst (snd (init_body (c\<lparr>super_init := (\<lambda>as. k)\<rparr>) mcp columns' lines' s))"
  unfolding init_body_def
  by (cases s)
     (simp add: bind_io_def perform_def mcp_get_pin_def return_io_def
       split: prod.splits sum.splits)

lemma init_geometry_free:
  "fst (init globals (c\<lparr>super_init := (\<lambda>as. k)\<rparr>) i2c columns lines s) =
     fst (init globals (c\<lparr>super_init := (\<lambda>as. k)\<rparr>) i2c columns' lines' s) \<and>
   fst (snd (init globals (c\<lparr>super_init := (\<lambda>as. k)\<rparr>) i2c columns lines s)) =
     fst (snd (init globals (c\<lparr>super_init := (\<lambda>as. k)\<rparr>) i2c columns' lines' s))"
  unfolding init_def
  by (cases s)
     (simp add: bind_io_def perform_def mcp_get_pin_def return_io_def load_global_def raise_io_def
       split: prod.splits sum.splits option.splits)

lemma shield_body_run:
  "init_body shield () columns lines (w, t) =
     (Inr shield_driver, (w, t @ drop 2 (shield_log columns lines)))"
  by (simp add: init_body_def bind_io_def perform_def mcp_get_pin_def return_io_def
        shield_def shield_driver_def shield_log_def)

lemma picky_body_run:
  "init_body picky () 0 lines (w, t) =
     (Inl (Raised ''ValueError''),
      (w, t @ butlast (drop 2 (shield_log 0 lines)) @
        [SuperInit [PinArg 15, PinArg 13, PinArg 12, PinArg 11, PinArg 10, PinArg 9,
                    IntArg 0, IntArg lines, PinArg 6, PinArg 7, PinArg 8, PinArg 14]
           (Some (Raised ''ValueError''))]))"
  by (simp add: init_body_def bind_io_def perform_def mcp_get_pin_def return_io_def
        picky_def shield_def shield_log_def)

text \<open>
  Every run under the module's own global scope: the import, then either the import's
  exception or the \<open>NameError\<close> of line 87, and nothing else.
\<close>

lemma init_module_globals_run:
  "init (module_globals obj) c i2c columns lines (w, t) =
     (case import_MCP23017 c w of
        (Inl e, w') \<Rightarrow> (Inl e, (w', t @ [Import (Some e)]))
      | (Inr cls, w') \<Rightarrow> (Inl (NameError ''MCP2317''), (w', t @ [Import None])))"
  by (simp add: init_def bind_io_def perform_def load_global_def raise_io_def
        module_globals_def module_names_def split: prod.splits sum.splits)

subsection \<open>The button properties\<close>

text \<open>
  C1. Each of the five properties \<open>left_button\<close>, \<open>up_button\<close>, \<open>down_button\<close>,
  \<open>right_button\<close> and \<open>select_button\<close> returns the negation of the value read from its
  own pin object: a pin that reads \<open>False\<close> (low) gives \<open>True\<close>, a pin that reads
  \<open>True\<close> gives \<open>False\<close>.
\<close>

theorem buttons_active_low:
  "(pin_value c (self_left_button self) w = (Inr vl, wl) \<longrightarrow>
      fst (left_button c self (w, t)) = Inr (\<not> vl)) \<and>
   (pin_value c (self_up_button self) w = (Inr vu, wu) \<longrightarrow>
      fst (up_button c self (w, t)) = Inr (\<not> vu)) \<and>
   (pin_value c (self_down_button self) w = (Inr vd, wd) \<longrightarrow>
      fst (down_button c self (w, t)) = Inr (\<not> vd)) \<and>
   (pin_value c (self_right_button self) w = (Inr vr, wr) \<longrightarrow>
      fst (right_button c self (w, t)) = Inr (\<not> vr)) \<and>
   (pin_value c (self_select_button self) w = (Inr vs, ws) \<longrightarrow>
      fst (select_button c self (w, t)) = Inr (\<not> vs))"
  by (simp add: left_button_def up_button_def down_button_def right_button_def
        select_button_def read_negated_eq)

text \<open>
  On the simulated shield with pin 4 low and every other pin high, \<open>left_button\<close> is
  \<open>True\<close> and the other four are \<open>False\<close>.
\<close>

theorem buttons_active_low_witness:
  "pin_value shield (self_left_button shield_driver) left_pressed = (Inr False, left_pressed) \<and>
   fst (left_button shield shield_driver (left_pressed, [])) = Inr True \<and>
   pin_value shield (self_up_button shield_driver) left_pressed = (Inr True, left_pressed) \<and>
   fst (up_button shield shield_driver (left_pressed, [])) = Inr False \<and>
   pin_value shield (self_down_button shield_driver) left_pressed = (Inr True, left_pressed) \<and>
   fst (down_button shield shield_driver (left_pressed, [])) = Inr False \<and>
   pin_value shield (self_right_button shield_driver) left_pressed = (Inr True, left_pressed) \<and>
   fst (right_button shield shield_driver (left_pressed, [])) = Inr False \<and>
   pin_value shield (self_select_button shield_driver) left_pressed = (Inr True, left_pressed) \<and>
   fst (select_button shield shield_driver (left_pressed, [])) = Inr False"
proof -
  have reads:
    "pin_value shield (self_left_button shield_driver) left_pressed = (Inr False, left_pressed)"
    "pin_value shield (self_up_button shield_driver) left_pressed = (Inr True, left_pressed)"
    "pin_value shield (self_down_button shield_driver) left_pressed = (Inr True, left_pressed)"
    "pin_value shield (self_right_button shield_driver) left_pressed = (Inr True, left_pressed)"
    "pin_value shield (self_select_button shield_driver) left_pressed = (Inr True, left_pressed)"
    by (simp_all add: shield_def shield_driver_def left_pressed_def)
  from reads
    buttons_active_low [where c = shield and self = shield_driver and w = left_pressed
      and t = "[]" and vl = False and wl = left_pressed and vu = True and wu = left_pressed
      and vd = True and wd = left_pressed and vr = True and wr = left_pressed
      and vs = True and ws = left_pressed]
  show ?thesis by simp
qed

text \<open>
  C8. A property read is a query: it makes exactly one call on a collaborator, the read of
  its own pin's value (the log grows by that one entry and the world changes only as that
  read changes it, so nothing is written to any pin), it returns the driver object
  unchanged, and its result is the negation of the value read in this very call, so
  nothing is cached or debounced.
\<close>

theorem button_reads_once:
  "(let pin = self_left_button self; (r, w') = pin_value c pin w
    in left_button c self (w, t) = (map_sum id Not r, self, (w', t @ [GetValue pin r]))) \<and>
   (let pin = self_up_button self; (r, w') = pin_value c pin w
    in up_button c self (w, t) = (map_sum id Not r, self, (w', t @ [GetValue pin r]))) \<and>
   (let pin = self_down_button self; (r, w') = pin_value c pin w
    in down_button c self (w, t) = (map_sum id Not r, self, (w', t @ [GetValue pin r]))) \<and>
   (let pin = self_right_button self; (r, w') = pin_value c pin w
    in right_button c self (w, t) = (map_sum id Not r, self, (w', t @ [GetValue pin r]))) \<and>
   (let pin = self_select_button self; (r, w') = pin_value c pin w
    in select_button c self (w, t) = (map_sum id Not r, self, (w', t @ [GetValue pin r])))"
  by (simp add: left_button_def up_button_def down_button_def right_button_def
        select_button_def read_negated_eq Let_def split_beta)

theorem button_reads_once_witness:
  "left_button shield shield_driver (left_pressed, []) =
     (Inr True, shield_driver, (left_pressed, [GetValue 4 (Inr False)])) \<and>
   up_button shield shield_driver (left_pressed, []) =
     (Inr False, shield_driver, (left_pressed, [GetValue 3 (Inr True)])) \<and>
   down_button shield shield_driver (left_pressed, []) =
     (Inr False, shield_driver, (left_pressed, [GetValue 2 (Inr True)])) \<and>
   right_button shield shield_driver (left_pressed, []) =
     (Inr False, shield_driver, (left_pressed, [GetValue 1 (Inr True)])) \<and>
   select_button shield shield_driver (left_pressed, []) =
     (Inr False, shield_driver, (left_pressed, [GetValue 0 (Inr True)]))"
  using button_reads_once [of shield_driver shield left_pressed "[]"]
  by (simp add: shield_def shield_driver_def left_pressed_def)

text \<open>
  C9. When the read of the pin's value raises, the property raises the same exception:
  nothing is retried or suppressed (the log shows the single failed read), and the driver
  object is unchanged.
\<close>

theorem button_errors_propagate:
  "(pin_value c (self_left_button self) w = (Inl e, w') \<longrightarrow>
      left_button c self (w, t) =
        (Inl e, self, (w', t @ [GetValue (self_left_button self) (Inl e)]))) \<and>
   (pin_value c (self_up_button self) w = (Inl e, w') \<longrightarrow>
      up_button c self (w, t) =
        (Inl e, self, (w', t @ [GetValue (self_up_button self) (Inl e)]))) \<and>
   (pin_value c (self_down_button self) w = (Inl e, w') \<longrightarrow>
      down_button c self (w, t) =
        (Inl e, self, (w', t @ [GetValue (self_down_button self) (Inl e)]))) \<and>
   (pin_value c (self_right_button self) w = (Inl e, w') \<longrightarrow>
      right_button c self (w, t) =
        (Inl e, self, (w', t @ [GetValue (self_right_button self) (Inl e)]))) \<and>
   (pin_value c (self_select_button self) w = (Inl e, w') \<longrightarrow>
      select_button c self (w, t) =
        (Inl e, self, (w', t @ [GetValue (self_select_button self) (Inl e)])))"
  by (simp add: left_button_def up_button_def down_button_def right_button_def
        select_button_def read_negated_eq)

theorem button_errors_propagate_witness:
  "pin_value dead_bus (self_left_button shield_driver) idle = (Inl (Raised ''TransportError''), idle) \<and>
   pin_value dead_bus (self_up_button shield_driver) idle = (Inl (Raised ''TransportError''), idle) \<and>
   pin_value dead_bus (self_down_button shield_driver) idle = (Inl (Raised ''TransportError''), idle) \<and>
   pin_value dead_bus (self_right_button shield_driver) idle = (Inl (Raised ''TransportError''), idle) \<and>
   pin_value dead_bus (self_select_button shield_driver) idle = (Inl (Raised ''TransportError''), idle) \<and>
   left_button dead_bus shield_driver (idle, []) =
     (Inl (Raised ''TransportError''), shield_driver,
      (idle, [GetValue 4 (Inl (Raised ''TransportError''))])) \<and>
   up_button dead_bus shield_driver (idle, []) =
     (Inl (Raised ''TransportError''), shield_driver,
      (idle, [GetValue 3 (Inl (Raised ''TransportError''))])) \<and>
   down_button dead_bus shield_driver (idle, []) =
     (Inl (Raised ''TransportError''), shield_driver,
      (idle, [GetValue 2 (Inl (Raised ''TransportError''))])) \<and>
   right_button dead_bus shield_driver (idle, []) =
     (Inl (Raised ''TransportError''), shield_driver,
      (idle, [GetValue 1 (Inl (Raised ''TransportError''))])) \<and>
   select_button dead_bus shield_driver (idle, []) =
     (Inl (Raised ''TransportError''), shield_driver,
      (idle, [GetValue 0 (Inl (Raised ''TransportError''))]))"
proof -
  have reads:
    "pin_value dead_bus (self_left_button shield_driver) idle = (Inl (Raised ''TransportError''), idle)"
    "pin_value dead_bus (self_up_button shield_driver) idle = (Inl (Raised ''TransportError''), idle)"
    "pin_value dead_bus (self_down_button shield_driver) idle = (Inl (Raised ''TransportError''), idle)"
    "pin_value dead_bus (self_right_button shield_driver) idle = (Inl (Raised ''TransportError''), idle)"
    "pin_value dead_bus (self_select_button shield_driver) idle = (Inl (Raised ''TransportError''), idle)"
    by (simp_all add: dead_bus_def)
  from reads
    button_errors_propagate [where c = dead_bus and self = shield_driver and w = idle
      and w' = idle and t = "[]" and e = "Raised ''TransportError''"]
  show ?thesis by (simp add: shield_driver_def)
qed

subsection \<open>The constructor\<close>

text \<open>
  C2. Construction is meant to succeed on a working shield with positive columns and lines.
  As the module is written it does not: line 86 imports \<open>MCP23017\<close> and line 87 calls
  \<open>MCP2317\<close>, a name nothing binds, so \<open>Character_LCD_RGB_I2C(i2c, 16, 2)\<close> raises
  \<open>NameError\<close> right after the import, before any pin is requested.
\<close>

theorem init_as_shipped_raises_NameError:
  "init shipped_globals shield () 16 2 (idle, []) =
     (Inl (NameError ''MCP2317''), (idle, [Import None]))"
  using shipped_run [of 16 2 idle "[]"] by simp

text \<open>
  C3. The pin assignment of lines 89 to 109 is meant to hold in every construction. As the
  module is written no construction assigns anything: whatever the collaborators do, the
  run ends at line 87, no instance is returned, no pin object is acquired for a button
  and no argument list is passed to the base constructor.
\<close>

theorem init_as_shipped_assigns_no_pin:
  "fst (init (module_globals obj) c i2c columns lines (w, [])) \<noteq> Inr self \<and>
   acquired (snd (snd (init (module_globals obj) c i2c columns lines (w, [])))) = [] \<and>
   forwarded (snd (snd (init (module_globals obj) c i2c columns lines (w, [])))) = []"
  by (simp add: init_module_globals_run split: prod.splits sum.splits)

text \<open>
  C4, as the claim states it, fails: with columns 0 the module as written raises
  \<open>NameError\<close>, not a configuration error, and the body of the constructor run with
  columns 0, or with lines -1, on a base constructor that accepts them returns an instance.
\<close>

theorem nonpositive_geometry_counterexample:
  "fst (init shipped_globals shield () 0 2 (idle, [])) = Inl (NameError ''MCP2317'') \<and>
   fst (init shipped_globals shield () 0 2 (idle, [])) \<noteq> Inl (Raised ''ConfigurationError'') \<and>
   fst (init_body shield () 0 2 (idle, [])) = Inr shield_driver \<and>
   fst (init_body shield () 16 (- 1) (idle, [])) = Inr shield_driver"
  by (simp add: shipped_run shield_body_run)

text \<open>
  C4, amended. The constructor has no geometry check of its own and raises no error of its
  own. In every run of its body (lines 89 to 109): the body fails exactly when the call it
  made last on a collaborator raised, with that exception; whenever no \<open>get_pin\<close> call
  raises, the last call is the call of the base constructor, whatever the sign of
  \<open>columns\<close> and \<open>lines\<close>; and every call of the base constructor has twelve
  positional arguments with \<open>columns\<close> and \<open>lines\<close> unchanged as the seventh and the
  eighth. With a base constructor that ignores its arguments, the outcome of the body and of
  the whole constructor is the same for every \<open>columns\<close> and \<open>lines\<close>.
\<close>

theorem init_body_forwards_geometry:
  assumes "init_body c mcp columns lines (w, t) = (r, (w', t @ es))"
  shows "es \<noteq> [] \<and> failure r = outcome (last es) \<and>
         (SuperInit as oc \<in> set es \<longrightarrow>
            length as = 12 \<and> as ! 6 = IntArg columns \<and> as ! 7 = IntArg lines) \<and>
         ((\<forall>i e. GetPin i (Inl e) \<notin> set es) \<longrightarrow> (\<exists>as' oc'. last es = SuperInit as' oc')) \<and>
         fst (init_body (c\<lparr>super_init := (\<lambda>as. k)\<rparr>) mcp columns lines s) =
           fst (init_body (c\<lparr>super_init := (\<lambda>as. k)\<rparr>) mcp columns' lines' s) \<and>
         fst (init globals (c\<lparr>super_init := (\<lambda>as. k)\<rparr>) i2c columns lines s) =
           fst (init globals (c\<lparr>super_init := (\<lambda>as. k)\<rparr>) i2c columns' lines' s)"
proof -
  from init_body_any_run [OF assms] obtain es' where
    eq: "t @ es = t @ es'" and
    ne: "es' \<noteq> []" and
    res: "failure r = outcome (last es')" and
    sup: "\<forall>as oc. SuperInit as oc \<in> set es' \<longrightarrow>
              length as = 12 \<and> as ! 6 = IntArg columns \<and> as ! 7 = IntArg lines" and
    all_ok: "(\<forall>i e. GetPin i (Inl e) \<notin> set es') \<longrightarrow>
              length es' = 16 \<and> map fst (acquired es') = pin_order \<and>
              (\<exists>as oc. last es' = SuperInit as oc \<and>
                 pin_args as = map snd (drop 5 (acquired es')))"
    by blast
  from eq have same: "es' = es" by simp
  from all_ok have reach: "(\<forall>i e. GetPin i (Inl e) \<notin> set es) \<longrightarrow> (\<exists>as' oc'. last es = SuperInit as' oc')"
    unfolding same by blast
  from sup have sup': "SuperInit as oc \<in> set es \<longrightarrow>
            length as = 12 \<and> as ! 6 = IntArg columns \<and> as ! 7 = IntArg lines"
    unfolding same by blast
  from ne res have "es \<noteq> []" "failure r = outcome (last es)"
    unfolding same by simp_all
  with sup' reach
    init_body_geometry_free [where c = c and k = k and mcp = mcp and columns = columns
      and lines = lines and s = s and columns' = columns' and lines' = lines']
    init_geometry_free [where globals = globals and c = c and k = k and ?i2c = i2c
      and columns = columns and lines = lines and s = s and columns' = columns'
      and lines' = lines']
  show ?thesis by blast
qed

text \<open>
  With a base constructor that refuses a zero, the body run with columns 0 reaches that
  constructor and raises its \<open>ValueError\<close>; with one that accepts everything, columns 0
  and columns 16 give the same outcome.
\<close>

theorem init_body_forwards_geometry_witness:
  "init_body picky () 0 2 (idle, []) =
     (Inl (Raised ''ValueError''),
      (idle, [] @ butlast (drop 2 (shield_log 0 2)) @
        [SuperInit [PinArg 15, PinArg 13, PinArg 12, PinArg 11, PinArg 10, PinArg 9,
                    IntArg 0, IntArg 2, PinArg 6, PinArg 7, PinArg 8, PinArg 14]
           (Some (Raised ''ValueError''))])) \<and>
   SuperInit [PinArg 15, PinArg 13, PinArg 12, PinArg 11, PinArg 10, PinArg 9,
              IntArg 0, IntArg 2, PinArg 6, PinArg 7, PinArg 8, PinArg 14]
     (Some (Raised ''ValueError'')) \<in>
     set (butlast (drop 2 (shield_log 0 2)) @
        [SuperInit [PinArg 15, PinArg 13, PinArg 12, PinArg 11, PinArg 10, PinArg 9,
                    IntArg 0, IntArg 2, PinArg 6, PinArg 7, PinArg 8, PinArg 14]
           (Some (Raised ''ValueError''))]) \<and>
   (\<forall>i e. GetPin i (Inl e) \<notin>
     set (butlast (drop 2 (shield_log 0 2)) @
        [SuperInit [PinArg 15, PinArg 13, PinArg 12, PinArg 11, PinArg 10, PinArg 9,
                    IntArg 0, IntArg 2, PinArg 6, PinArg 7, PinArg 8, PinArg 14]
           (Some (Raised ''ValueError''))])) \<and>
   [PinArg 15, PinArg 13, PinArg 12, PinArg 11, PinArg 10, PinArg (9::int),
    IntArg 0, IntArg 2, PinArg 6, PinArg 7, PinArg 8, PinArg 14] ! 6 = IntArg 0 \<and>
   [PinArg 15, PinArg 13, PinArg 12, PinArg 11, PinArg 10, PinArg (9::int),
    IntArg 0, IntArg 2, PinArg 6, PinArg 7, PinArg 8, PinArg 14] ! 7 = IntArg 2 \<and>
   failure (Inl (Raised ''ValueError'') :: exn + (int, unit) driver) =
     outcome (SuperInit [PinArg 15, PinArg 13, PinArg 12, PinArg 11, PinArg 10, PinArg (9::int),
                    IntArg 0, IntArg 2, PinArg 6, PinArg 7, PinArg 8, PinArg 14]
           (Some (Raised ''ValueError''))) \<and>
   fst (init_body (picky\<lparr>super_init := (\<lambda>as w. (Inr (), w))\<rparr>) () 0 2 (idle, [])) =
     fst (init_body (picky\<lparr>super_init := (\<lambda>as w. (Inr (), w))\<rparr>) () 16 2 (idle, []))"
proof -
  have run: "init_body picky () 0 2 (idle, []) =
     (Inl (Raised ''ValueError''),
      (idle, [] @ butlast (drop 2 (shield_log 0 2)) @
        [SuperInit [PinArg 15, PinArg 13, PinArg 12, PinArg 11, PinArg 10, PinArg 9,
                    IntArg 0, IntArg 2, PinArg 6, PinArg 7, PinArg 8, PinArg 14]
           (Some (Raised ''ValueError''))]))"
    by (rule picky_body_run)
  have reached: "SuperInit [PinArg 15, PinArg 13, PinArg 12, PinArg 11, PinArg 10, PinArg 9,
              IntArg 0, IntArg 2, PinArg 6, PinArg 7, PinArg 8, PinArg 14]
     (Some (Raised ''ValueError'')) \<in>
     set (butlast (drop 2 (shield_log 0 2)) @
        [SuperInit [PinArg 15, PinArg 13, PinArg 12, PinArg 11, PinArg 10, PinArg 9,
                    IntArg 0, IntArg 2, PinArg 6, PinArg 7, PinArg 8, PinArg 14]
           (Some (Raised ''ValueError''))])"
    by simp
  have ok: "\<forall>i e. GetPin i (Inl e) \<notin>
     set (butlast (drop 2 (shield_log 0 2)) @
        [SuperInit [PinArg 15, PinArg 13, PinArg 12, PinArg 11, PinArg 10, PinArg 9,
                    IntArg 0, IntArg 2, PinArg 6, PinArg 7, PinArg 8, PinArg 14]
           (Some (Raised ''ValueError''))])"
    by (simp add: shield_log_def)
  from init_body_forwards_geometry [OF run,
      where as = "[PinArg 15, PinArg 13, PinArg 12, PinArg 11, PinArg 10, PinArg 9,
                   IntArg 0, IntArg 2, PinArg 6, PinArg 7, PinArg 8, PinArg 14]"
        and oc = "Some (Raised ''ValueError'')" and k = "\<lambda>w. (Inr (), w)"
        and s = "(idle, [])" and columns' = 16 and lines' = 2]
    run reached ok
  show ?thesis by simp
qed

text \<open>
  C6, as the claim states it, fails: the body of the constructor asks the expander for
  fifteen pin objects, not twelve, and forwards ten of them to the base constructor, not
  seven; and the module as written acquires none.
\<close>

theorem twelve_handles_counterexample:
  "requested (snd (snd (init_body shield () 16 2 (idle, [])))) =
     [4, 3, 2, 1, 0, 15, 13, 12, 11, 10, 9, 6, 7, 8, 14] \<and>
   length (requested (snd (snd (init_body shield () 16 2 (idle, []))))) \<noteq> 12 \<and>
   forwarded (snd (snd (init_body shield () 16 2 (idle, [])))) =
     [[PinArg 15, PinArg 13, PinArg 12, PinArg 11, PinArg 10, PinArg 9,
       IntArg 16, IntArg 2, PinArg 6, PinArg 7, PinArg 8, PinArg 14]] \<and>
   length (pin_args [PinArg 15, PinArg 13, PinArg 12, PinArg 11, PinArg 10, PinArg (9::int),
       IntArg 16, IntArg 2, PinArg 6, PinArg 7, PinArg 8, PinArg 14]) \<noteq> 7 \<and>
   length (requested (snd (snd (init shipped_globals shield () 16 2 (idle, []))))) \<noteq> 12"
  by (simp add: shield_body_run shipped_run shield_log_def)

text \<open>
  C6, amended. In every run of the constructor's body (lines 89 to 109) in which no
  \<open>get_pin\<close> call raises, the body makes sixteen calls and acquires exactly fifteen pin
  objects: it asks for indices 4, 3, 2, 1, 0, whose pin objects are the left, up, down,
  right and select button attributes of the instance returned, and then for indices 15, 13,
  12, 11, 10, 9, 6, 7, 8, 14, whose ten pin objects are, in that order, the pin arguments
  of the call of the base constructor.
\<close>

theorem init_body_acquires_fifteen:
  assumes "init_body c mcp columns lines (w, t) = (r, (w', t @ es))"
      and "\<forall>i e. GetPin i (Inl e) \<notin> set es"
  shows "length es = 16 \<and> length (acquired es) = 15 \<and>
         map fst (acquired es) = [4, 3, 2, 1, 0, 15, 13, 12, 11, 10, 9, 6, 7, 8, 14] \<and>
         (\<exists>as oc. last es = SuperInit as oc \<and> length (pin_args as) = 10 \<and>
            pin_args as = map snd (drop 5 (acquired es))) \<and>
         (\<forall>self. r = Inr self \<longrightarrow>
            [self_left_button self, self_up_button self, self_down_button self,
             self_right_button self, self_select_button self] = map snd (take 5 (acquired es)))"
proof -
  from init_body_any_run [OF assms(1)] obtain es' where
    eq: "t @ es = t @ es'" and
    all_ok: "(\<forall>i e. GetPin i (Inl e) \<notin> set es') \<longrightarrow>
              length es' = 16 \<and> map fst (acquired es') = pin_order \<and>
              (\<exists>as oc. last es' = SuperInit as oc \<and>
                 pin_args as = map snd (drop 5 (acquired es')))" and
    inst: "\<forall>self. r = Inr self \<longrightarrow>
              map snd (take 5 (acquired es')) = self_buttons self \<and>
              self_buttons self =
                [self_left_button self, self_up_button self, self_down_button self,
                 self_right_button self, self_select_button self]"
    by blast
  from eq have same: "es' = es" by simp
  from all_ok assms(2) have len: "length es = 16"
    and idx: "map fst (acquired es) = pin_order"
    and fwd: "\<exists>as oc. last es = SuperInit as oc \<and> pin_args as = map snd (drop 5 (acquired es))"
    unfolding same by blast+
  from idx have "length (map fst (acquired es)) = length pin_order" by simp
  then have n: "length (acquired es) = 15" by (simp add: pin_order_def)
  from fwd obtain as oc where call: "last es = SuperInit as oc"
    and args: "pin_args as = map snd (drop 5 (acquired es))"
    by blast
  from args n have "length (pin_args as) = 10" by simp
  with call args have fwd': "\<exists>as oc. last es = SuperInit as oc \<and> length (pin_args as) = 10 \<and>
            pin_args as = map snd (drop 5 (acquired es))"
    by blast
  from inst have btn: "\<forall>self. r = Inr self \<longrightarrow>
            [self_left_button self, self_up_button self, self_down_button self,
             self_right_button self, self_select_button self] = map snd (take 5 (acquired es))"
    unfolding same by simp
  from idx have idx': "map fst (acquired es) = [4, 3, 2, 1, 0, 15, 13, 12, 11, 10, 9, 6, 7, 8, 14]"
    by (simp add: pin_order_def)
  from len n idx' fwd' btn show ?thesis by blast
qed

theorem init_body_acquires_fifteen_witness:
  "init_body shield () 16 2 (idle, []) =
     (Inr shield_driver, (idle, [] @ drop 2 (shield_log 16 2))) \<and>
   (\<forall>i e. GetPin i (Inl e) \<notin> set (drop 2 (shield_log 16 2))) \<and>
   length (drop 2 (shield_log 16 2)) = 16 \<and>
   acquired (drop 2 (shield_log 16 2)) =
     [(4, 4), (3, 3), (2, 2), (1, 1), (0, 0), (15, 15), (13, 13), (12, 12), (11, 11),
      (10, 10), (9, 9), (6, 6), (7, 7), (8, 8), (14, 14)] \<and>
   map fst (acquired (drop 2 (shield_log 16 2))) =
     [4, 3, 2, 1, 0, 15, 13, 12, 11, 10, 9, 6, 7, 8, 14] \<and>
   [self_left_button shield_driver, self_up_button shield_driver,
    self_down_button shield_driver, self_right_button shield_driver,
    self_select_button shield_driver] = map snd (take 5 (acquired (drop 2 (shield_log 16 2))))"
proof -
  have run: "init_body shield () 16 2 (idle, []) =
     (Inr shield_driver, (idle, [] @ drop 2 (shield_log 16 2)))"
    by (rule shield_body_run)
  have ok: "\<forall>i e. GetPin i (Inl e) \<notin> set (drop 2 (shield_log 16 2))"
    by (simp add: shield_log_def)
  have acq: "acquired (drop 2 (shield_log 16 2)) =
     [(4, 4), (3, 3), (2, 2), (1, 1), (0, 0), (15, 15), (13, 13), (12, 12), (11, 11),
      (10, 10), (9, 9), (6, 6), (7, 7), (8, 8), (14, 14)]"
    by (simp add: shield_log_def)
  from init_body_acquires_fifteen [OF run ok] run ok acq show ?thesis by simp
qed

text \<open>
  C7. The pin objects of an instance never change: after any sequence of property reads
  the driver object is the one construction returned. The fifteen indices that construction
  assigned to the five button attributes and the ten base-constructor arguments are
  pairwise distinct.
\<close>

theorem pin_roles_fixed:
  assumes "init globals c i2c columns lines (w, t) = (Inr self, (w', t @ es))"
      and "poll c bs self s = (rs, self', s')"
  shows "self' = self \<and> requested es = pin_order \<and> distinct (requested es)"
proof -
  from assms(2) have "self' = self" by (rule poll_self)
  moreover from init_success [OF assms(1)] have "requested es = pin_order"
    by (auto simp: pin_order_def)
  moreover have "distinct pin_order" by (simp add: pin_order_def)
  ultimately show ?thesis by simp
qed

theorem pin_roles_fixed_witness:
  "init patched_globals shield () 16 2 (idle, []) = (Inr shield_driver, (idle, [] @ shield_log 16 2)) \<and>
   poll shield [LeftButton, SelectButton, LeftButton] shield_driver (left_pressed, []) =
     ([Inr True, Inr False, Inr True], shield_driver,
      (left_pressed, [GetValue 4 (Inr False), GetValue 0 (Inr True), GetValue 4 (Inr False)])) \<and>
   requested (shield_log 16 2) = pin_order \<and> distinct (requested (shield_log 16 2))"
proof -
  have run: "init patched_globals shield () 16 2 (idle, []) = (Inr shield_driver, (idle, [] @ shield_log 16 2))"
    by (rule shield_run)
  have polled: "poll shield [LeftButton, SelectButton, LeftButton] shield_driver (left_pressed, []) =
     ([Inr True, Inr False, Inr True], shield_driver,
      (left_pressed, [GetValue 4 (Inr False), GetValue 0 (Inr True), GetValue 4 (Inr False)]))"
    by (simp add: left_button_def select_button_def read_negated_eq shield_def shield_driver_def
          left_pressed_def)
  from pin_roles_fixed [OF run polled] run polled show ?thesis by blast
qed

text \<open>
  C10. Every construction is meant to ask \<open>get_pin\<close> for fifteen indices. As the module
  is written no construction asks for any: whatever the collaborators do, the log of a run
  holds no \<open>get_pin\<close> call.
\<close>

theorem init_as_shipped_requests_no_index:
  "requested (snd (snd (init (module_globals obj) c i2c columns lines (w, [])))) = []"
  by (simp add: init_module_globals_run split: prod.splits sum.splits)

end
